theory Spec2Isabelle
  imports Main
begin

section \<open>Data model of the MCP chat client (src/index.ts)\<close>

text \<open>
  A thrown JavaScript \<open>Error\<close> is a value carrying its message. Failures of the two SDK
  collaborators are errors of the same type. A JavaScript value that may be
  \<open>undefined\<close> is an \<open>option\<close>, with \<open>None\<close> for \<open>undefined\<close>.
\<close>

datatype error = Error string

text \<open>The error thrown at line 28 of the source, which the specification calls
  \<open>UnsupportedScriptType\<close>.\<close>

definition UnsupportedScriptType :: error where
  "UnsupportedScriptType = Error ''Server script must be a .js or .py file''"

text \<open>A conversation message: \<open>{role, content}\<close>.\<close>

record message =
  role :: string
  content :: string

text \<open>A tool as the protocol server advertises it: \<open>{name, description, inputSchema}\<close>;
  of the schema only its \<open>properties\<close> field is read. The type \<open>'p\<close> is the schema's
  property table, which the client passes through unread.\<close>

record 'p mcp_tool =
  mcp_name :: string
  mcp_description :: "string option"
  inputSchema_properties :: "'p option"

text \<open>A tool in the chat collaborator's shape:
  \<open>{type, function: {name, description, parameters}}\<close>.\<close>

record 'p tool_function =
  fn_name :: string
  fn_description :: "string option"
  fn_parameters :: "'p option"

record 'p tool =
  tool_type :: string
  tool_function :: "'p tool_function"

text \<open>A tool-call directive \<open>{function: {name, arguments}}\<close>; the type \<open>'a\<close> is the
  argument mapping, which the source casts to a mapping or \<open>undefined\<close>.\<close>

record 'a tool_call =
  call_name :: string
  call_arguments :: "'a option"

text \<open>The part of a chat response the client reads: \<open>message.content\<close> and
  \<open>message.tool_calls\<close>.\<close>

record 'a chat_response =
  message_content :: "string option"
  message_tool_calls :: "'a tool_call list option"

text \<open>The argument of \<open>ollama.chat\<close>; \<open>req_tools\<close> is \<open>None\<close> when the call passes no
  \<open>tools\<close> field.\<close>

record 'p chat_request =
  req_model :: string
  req_messages :: "message list"
  req_stream :: bool
  req_tools :: "'p tool list option"

text \<open>An item of a tool result's \<open>content\<close> array: its \<open>type\<close>, its \<open>text\<close> field and the
  \<open>data\<close> field of its \<open>resource\<close>. An item of type \<open>resource\<close> holds a resource object,
  as the protocol's type says; the \<open>data\<close> field of that object may be missing.\<close>

record content_item =
  item_type :: string
  item_text :: "string option"
  resource_data :: "string option"

text \<open>The options object of \<open>new StdioClientTransport\<close>.\<close>

record transport =
  command :: string
  args :: "string list"

text \<open>The fields of \<open>MCPClient\<close> that its methods assign.\<close>

record 'p client =
  client_transport :: "transport option"
  tools :: "'p tool list"

text \<open>The host process: \<open>process.platform\<close>, \<open>process.execPath\<close> and the module constant
  \<open>OLLAMA_MODEL\<close>.\<close>

record host =
  platform :: string
  execPath :: string
  OLLAMA_MODEL :: string

section \<open>Collaborators and the trace of their calls\<close>

text \<open>
  The SDK objects are outside the program. Each call takes the state \<open>'w\<close> of the outside
  world and returns its outcome with the next state, so that a collaborator may answer
  differently on every call. \<open>JSON_stringify\<close> is the builtin applied to the argument
  mapping of a directive.
\<close>

record ('w, 'a, 'p) collab =
  ollama_chat :: "'w \<Rightarrow> 'p chat_request \<Rightarrow> (error + 'a chat_response) \<times> 'w"
  mcp_connect :: "'w \<Rightarrow> transport \<Rightarrow> 'w"
  mcp_listTools :: "'w \<Rightarrow> (error + 'p mcp_tool list) \<times> 'w"
  mcp_callTool :: "'w \<Rightarrow> string \<Rightarrow> 'a option \<Rightarrow> (error + content_item list) \<times> 'w"
  mcp_close :: "'w \<Rightarrow> (error + unit) \<times> 'w"
  rl_question :: "'w \<Rightarrow> string \<Rightarrow> (error + string) \<times> 'w"
  JSON_stringify :: "'a \<Rightarrow> string"

datatype console_arg = LStr string | LNames "string list" | LErr error

text \<open>Every call that leaves the program is recorded with its outcome, in the order the
  calls are made.\<close>

datatype ('a, 'p) event =
    NewTransport transport
  | McpConnect transport
  | ListTools "error + 'p mcp_tool list"
  | ChatEv "'p chat_request" "error + 'a chat_response"
  | CallToolEv string "'a option" "error + content_item list"
  | ConsoleLog "console_arg list"
  | CreateInterface
  | Question string "error + string"
  | RlClose
  | McpClose "error + unit"

section \<open>String builtins\<close>

text \<open>\<open>String.prototype.endsWith\<close>.\<close>

definition endsWith :: "string \<Rightarrow> string \<Rightarrow> bool" where
  "endsWith s suf \<longleftrightarrow>
     length suf \<le> length s \<and> drop (length s - length suf) s = suf"

text \<open>\<open>Array.prototype.join\<close>, as the language standard gives it: the result starts empty,
  the separator is added before every element but the first, and an \<open>undefined\<close> element
  adds the empty string.\<close>

fun join_from :: "string \<Rightarrow> nat \<Rightarrow> string option list \<Rightarrow> string \<Rightarrow> string" where
  "join_from sep k [] R = R"
| "join_from sep k (x # xs) R =
     join_from sep (Suc k) xs
       ((if k > 0 then R @ sep else R) @ (case x of None \<Rightarrow> '''' | Some s \<Rightarrow> s))"

definition js_join :: "string \<Rightarrow> string option list \<Rightarrow> string" where
  "js_join sep xs = join_from sep 0 xs ''''"

text \<open>\<open>String.prototype.toLowerCase\<close> on the letters \<open>A\<close> to \<open>Z\<close>; every other character
  of the model's strings is left as it is.\<close>

definition lower_char :: "char \<Rightarrow> char" where
  "lower_char ch =
     (case map_of (zip ''ABCDEFGHIJKLMNOPQRSTUVWXYZ'' ''abcdefghijklmnopqrstuvwxyz'') ch of
        Some l \<Rightarrow> l
      | None \<Rightarrow> ch)"

definition toLowerCase :: "string \<Rightarrow> string" where
  "toLowerCase s = map lower_char s"

section \<open>Flattening a tool result (lines 92 to 103)\<close>

text \<open>The callback of \<open>arrayResult.map\<close>: a \<open>switch\<close> on \<open>item.type\<close>.\<close>

definition flatten_item :: "content_item \<Rightarrow> string option" where
  "flatten_item item =
     (if item_type item = ''text'' then item_text item
      else if item_type item = ''resource'' then resource_data item
      else Some '''')"

definition flatten :: "content_item list \<Rightarrow> string" where
  "flatten arrayResult = js_join [CHR 0x0A, CHR 0x0A] (map flatten_item arrayResult)"

text \<open>The flattening rule in the words of the specification: each item has a textual
  representation, and the representations are put together with a blank line between
  neighbours.\<close>

definition textual_representation :: "content_item \<Rightarrow> string" where
  "textual_representation item =
     (if item_type item = ''text'' then (case item_text item of Some s \<Rightarrow> s | None \<Rightarrow> '''')
      else if item_type item = ''resource''
        then (case resource_data item of Some s \<Rightarrow> s | None \<Rightarrow> '''')
      else '''')"

fun blank_line_joined :: "string list \<Rightarrow> string" where
  "blank_line_joined [] = ''''"
| "blank_line_joined [x] = x"
| "blank_line_joined (x # y # ys) = x @ [CHR 0x0A, CHR 0x0A] @ blank_line_joined (y # ys)"

section \<open>connectToServer (lines 23 to 60)\<close>

text \<open>The callback of \<open>toolsResult.tools.map\<close>.\<close>

definition to_tool :: "'p mcp_tool \<Rightarrow> 'p tool" where
  "to_tool t =
     \<lparr>tool_type = ''function'',
      tool_function =
        \<lparr>fn_name = mcp_name t,
         fn_description = mcp_description t,
         fn_parameters = inputSchema_properties t\<rparr>\<rparr>"

text \<open>
  The method returns the outcome (\<open>Inl\<close> for the error it rethrows), the client with the
  fields it assigned, the next state of the world, and the calls it made. \<open>mcp.connect\<close>
  is started and not awaited, so its failure never reaches the \<open>catch\<close>.
\<close>

definition connectToServer ::
  "('w, 'a, 'p) collab \<Rightarrow> host \<Rightarrow> 'p client \<Rightarrow> 'w \<Rightarrow> string
     \<Rightarrow> (error + unit) \<times> 'p client \<times> 'w \<times> ('a, 'p) event list" where
  "connectToServer E H this w serverScriptPath =
     (let isJs = endsWith serverScriptPath ''.js'';
          isPy = endsWith serverScriptPath ''.py''
      in if \<not> isJs \<and> \<not> isPy
         then (Inl UnsupportedScriptType, this, w,
               [ConsoleLog [LStr ''Failed to connect to MCP server: '',
                            LErr UnsupportedScriptType]])
         else
           let cmd = (if isPy
                      then (if platform H = ''win32'' then ''python'' else ''python3'')
                      else execPath H);
               t = \<lparr>command = cmd, args = [serverScriptPath]\<rparr>;
               this1 = this\<lparr>client_transport := Some t\<rparr>;
               w1 = mcp_connect E w t
           in case mcp_listTools E w1 of
                (Inl e, w2) \<Rightarrow>
                  (Inl e, this1, w2,
                   [NewTransport t, McpConnect t, ListTools (Inl e),
                    ConsoleLog [LStr ''Failed to connect to MCP server: '', LErr e]])
              | (Inr toolsResult, w2) \<Rightarrow>
                  let this2 = this1\<lparr>tools := map to_tool toolsResult\<rparr>
                  in (Inr (), this2, w2,
                      [NewTransport t, McpConnect t, ListTools (Inr toolsResult),
                       ConsoleLog [LStr ''Connected to server with tools:'',
                                   LNames (map (\<lambda>tool. fn_name (tool_function tool))
                                             (tools this2))]]))"

section \<open>processQuery (lines 62 to 125)\<close>

text \<open>The local arrays of \<open>processQuery\<close>. An entry of \<open>finalText\<close> is a string or,
  in the branch without tool calls, whatever \<open>message.content\<close> was.\<close>

record locals =
  messages :: "message list"
  finalText :: "string option list"
  toolResults :: "content_item list list"

text \<open>The template literal of line 90. \<open>JSON.stringify(undefined)\<close> is \<open>undefined\<close>, which
  a template literal prints as the word.\<close>

definition trace_line :: "('w, 'a, 'p) collab \<Rightarrow> string \<Rightarrow> 'a option \<Rightarrow> string" where
  "trace_line E toolName toolArgs =
     ''[Calling tool '' @ toolName @ '' with args ''
       @ (case toolArgs of None \<Rightarrow> ''undefined'' | Some a \<Rightarrow> JSON_stringify E a) @ '']''"

text \<open>Line 117: \<open>content ? content : ""\<close>; the empty string is falsy too.\<close>

definition content_or_empty :: "'a chat_response \<Rightarrow> string" where
  "content_or_empty response =
     (case message_content response of
        None \<Rightarrow> ''''
      | Some s \<Rightarrow> if s = '''' then '''' else s)"

definition first_request :: "host \<Rightarrow> 'p client \<Rightarrow> string \<Rightarrow> 'p chat_request" where
  "first_request H this query =
     \<lparr>req_model = OLLAMA_MODEL H,
      req_messages = [\<lparr>role = ''user'', content = query\<rparr>],
      req_stream = False,
      req_tools = Some (tools this)\<rparr>"

definition followup_request :: "host \<Rightarrow> message list \<Rightarrow> 'p chat_request" where
  "followup_request H msgs =
     \<lparr>req_model = OLLAMA_MODEL H,
      req_messages = msgs,
      req_stream = False,
      req_tools = None\<rparr>"

text \<open>The \<open>for ... of\<close> loop of lines 79 to 119 over the directives still to process. A
  rejected \<open>callTool\<close> or \<open>chat\<close> leaves the loop at once with the error. A tool result
  is its \<open>content\<close> array; a result without one makes line 94 throw before anything else
  is called, and counts here as a rejected \<open>callTool\<close>.\<close>

fun for_tool_calls ::
  "('w, 'a, 'p) collab \<Rightarrow> host \<Rightarrow> 'a tool_call list \<Rightarrow> 'w \<Rightarrow> locals
     \<Rightarrow> (error + locals) \<times> 'w \<times> ('a, 'p) event list" where
  "for_tool_calls E H [] w L = (Inr L, w, [])"
| "for_tool_calls E H (c # cs) w L =
     (let toolName = call_name c;
          toolArgs = call_arguments c
      in case mcp_callTool E w toolName toolArgs of
           (Inl e, w1) \<Rightarrow> (Inl e, w1, [CallToolEv toolName toolArgs (Inl e)])
         | (Inr result, w1) \<Rightarrow>
             let L1 = L\<lparr>toolResults := toolResults L @ [result]\<rparr>;
                 L2 = L1\<lparr>finalText := finalText L1 @ [Some (trace_line E toolName toolArgs)]\<rparr>;
                 flattened = flatten result;
                 L3 = L2\<lparr>messages := messages L2 @ [\<lparr>role = ''tool'', content = flattened\<rparr>]\<rparr>;
                 req = followup_request H (messages L3)
             in (case ollama_chat E w1 req of
                   (Inl e, w2) \<Rightarrow>
                     (Inl e, w2, [CallToolEv toolName toolArgs (Inr result), ChatEv req (Inl e)])
                 | (Inr response, w2) \<Rightarrow>
                     let L4 = L3\<lparr>finalText := finalText L3 @ [Some (content_or_empty response)]\<rparr>
                     in (case for_tool_calls E H cs w2 L4 of
                           (r, w3, evs) \<Rightarrow>
                             (r, w3,
                              CallToolEv toolName toolArgs (Inr result)
                                # ChatEv req (Inr response) # evs))))"

text \<open>The body of \<open>processQuery\<close> up to the \<open>return\<close>, with the local arrays as they are
  when it is reached.\<close>

definition processQuery_locals ::
  "('w, 'a, 'p) collab \<Rightarrow> host \<Rightarrow> 'p client \<Rightarrow> 'w \<Rightarrow> string
     \<Rightarrow> (error + locals) \<times> 'w \<times> ('a, 'p) event list" where
  "processQuery_locals E H this w query =
     (let L = \<lparr>messages = [\<lparr>role = ''user'', content = query\<rparr>],
               finalText = [], toolResults = []\<rparr>;
          req = first_request H this query
      in case ollama_chat E w req of
           (Inl e, w1) \<Rightarrow> (Inl e, w1, [ChatEv req (Inl e)])
         | (Inr response, w1) \<Rightarrow>
             (case message_tool_calls response of
                Some calls \<Rightarrow>
                  (case for_tool_calls E H calls w1 L of
                     (r, w2, evs) \<Rightarrow> (r, w2, ChatEv req (Inr response) # evs))
              | None \<Rightarrow>
                  (Inr (L\<lparr>finalText := finalText L @ [message_content response]\<rparr>), w1,
                   [ChatEv req (Inr response)])))"

definition processQuery ::
  "('w, 'a, 'p) collab \<Rightarrow> host \<Rightarrow> 'p client \<Rightarrow> 'w \<Rightarrow> string
     \<Rightarrow> (error + string) \<times> 'p client \<times> 'w \<times> ('a, 'p) event list" where
  "processQuery E H this w query =
     (case processQuery_locals E H this w query of
        (Inl e, w1, evs) \<Rightarrow> (Inl e, this, w1, evs)
      | (Inr L, w1, evs) \<Rightarrow> (Inr (js_join [CHR 0x0A] (finalText L)), this, w1, evs))"

section \<open>chatLoop (lines 127 to 152) and cleanup\<close>

definition query_prompt :: string where
  "query_prompt = CHR 0x0A # ''Query: ''"

text \<open>The \<open>while (true)\<close> loop. It may never end, so its result is an \<open>option\<close>: \<open>None\<close>
  when the loop runs forever. A rejected \<open>rl.question\<close> leaves the loop with the error; an
  error of \<open>processQuery\<close> is printed and the loop goes on.\<close>

partial_function (option) chatLoop_while ::
  "('w, 'a, 'p) collab \<Rightarrow> host \<Rightarrow> 'p client \<Rightarrow> 'w \<Rightarrow> ('a, 'p) event list
     \<Rightarrow> ((error + unit) \<times> 'p client \<times> 'w \<times> ('a, 'p) event list) option" where
  "chatLoop_while E H this w evs =
     (case rl_question E w query_prompt of
        (Inl e, w1) \<Rightarrow> Some (Inl e, this, w1, evs @ [Question query_prompt (Inl e)])
      | (Inr line, w1) \<Rightarrow>
          if toLowerCase line = ''quit''
          then Some (Inr (), this, w1, evs @ [Question query_prompt (Inr line)])
          else (case processQuery E H this w1 line of
                  (Inr response, this2, w2, evs2) \<Rightarrow>
                    chatLoop_while E H this2 w2
                      (evs @ Question query_prompt (Inr line) # evs2
                         @ [ConsoleLog [LStr (CHR 0x0A # '' Response :'' @ response)]])
                | (Inl err, this2, w2, evs2) \<Rightarrow>
                    chatLoop_while E H this2 w2
                      (evs @ Question query_prompt (Inr line) # evs2
                         @ [ConsoleLog [LStr ''Error occured : '', LErr err]])))"

text \<open>The whole method: the interface is created, two lines are printed, the loop runs,
  and the \<open>finally\<close> block closes the interface on every way out.\<close>

definition chatLoop ::
  "('w, 'a, 'p) collab \<Rightarrow> host \<Rightarrow> 'p client \<Rightarrow> 'w
     \<Rightarrow> ((error + unit) \<times> 'p client \<times> 'w \<times> ('a, 'p) event list) option" where
  "chatLoop E H this w =
     (case chatLoop_while E H this w
             [CreateInterface,
              ConsoleLog [LStr (CHR 0x0A # ''MCP Client Started!'')],
              ConsoleLog [LStr (''Type your queries or '' @ [CHR 0x27] @ ''quit''
                                  @ [CHR 0x27] @ '' to exit.'')]] of
        None \<Rightarrow> None
      | Some (r, this1, w1, evs) \<Rightarrow> Some (r, this1, w1, evs @ [RlClose]))"

definition cleanup ::
  "('w, 'a, 'p) collab \<Rightarrow> 'p client \<Rightarrow> 'w
     \<Rightarrow> (error + unit) \<times> 'p client \<times> 'w \<times> ('a, 'p) event list" where
  "cleanup E this w = (case mcp_close E w of (r, w1) \<Rightarrow> (r, this, w1, [McpClose r]))"

section \<open>Reading the trace\<close>

text \<open>The chat requests of a trace, the responses of those that succeeded, the tool
  invocations, and the results of those that succeeded, each in order.\<close>

fun chat_requests :: "('a, 'p) event list \<Rightarrow> 'p chat_request list" where
  "chat_requests [] = []"
| "chat_requests (ChatEv req r # evs) = req # chat_requests evs"
| "chat_requests (_ # evs) = chat_requests evs"

fun chat_responses :: "('a, 'p) event list \<Rightarrow> 'a chat_response list" where
  "chat_responses [] = []"
| "chat_responses (ChatEv req (Inr resp) # evs) = resp # chat_responses evs"
| "chat_responses (_ # evs) = chat_responses evs"

fun tool_invocations :: "('a, 'p) event list \<Rightarrow> (string \<times> 'a option) list" where
  "tool_invocations [] = []"
| "tool_invocations (CallToolEv n a r # evs) = (n, a) # tool_invocations evs"
| "tool_invocations (_ # evs) = tool_invocations evs"

fun tool_outputs :: "('a, 'p) event list \<Rightarrow> content_item list list" where
  "tool_outputs [] = []"
| "tool_outputs (CallToolEv n a (Inr result) # evs) = result # tool_outputs evs"
| "tool_outputs (_ # evs) = tool_outputs evs"

text \<open>A call that the collaborator rejected.\<close>

fun rejected :: "('a, 'p) event \<Rightarrow> bool" where
  "rejected (ListTools (Inl e)) = True"
| "rejected (ChatEv req (Inl e)) = True"
| "rejected (CallToolEv n a (Inl e)) = True"
| "rejected (Question prompt (Inl e)) = True"
| "rejected (McpClose (Inl e)) = True"
| "rejected _ = False"

text \<open>The \<open>tool\<close>-role message that carries a flattened result.\<close>

definition tool_message :: "content_item list \<Rightarrow> message" where
  "tool_message result = \<lparr>role = ''tool'', content = flatten result\<rparr>"

text \<open>The requests of the follow-up chat calls when the results \<open>rs\<close> are appended one
  after the other to the history \<open>base\<close>.\<close>

fun followups :: "host \<Rightarrow> message list \<Rightarrow> content_item list list \<Rightarrow> 'p chat_request list" where
  "followups H base [] = []"
| "followups H base (r # rs) =
     followup_request H (base @ [tool_message r])
       # followups H (base @ [tool_message r]) rs"

section \<open>A concrete session\<close>

text \<open>
  A world for running the client on concrete inputs: a counter of the calls made and the
  lines still to be typed. The chat collaborator answers the first request, which carries
  the tools, with a given response, and a follow-up request with a text or with nothing,
  by the length of the history; every tool returns its own name as one text item.
\<close>

definition demo_host :: host where
  "demo_host =
     \<lparr>platform = ''linux'', execPath = ''/usr/bin/node'', OLLAMA_MODEL = ''qwen3:4b''\<rparr>"

definition demo_tools :: "unit mcp_tool list" where
  "demo_tools =
     [\<lparr>mcp_name = ''add'', mcp_description = Some ''adds'', inputSchema_properties = Some ()\<rparr>,
      \<lparr>mcp_name = ''echo'', mcp_description = None, inputSchema_properties = None\<rparr>]"

text \<open>The argument mapping of a directive, with strings for values, and
  \<open>JSON.stringify\<close> on such a mapping when no key or value needs an escape.\<close>

definition quoted :: "string \<Rightarrow> string" where
  "quoted s = [CHR 0x22] @ s @ [CHR 0x22]"

definition demo_stringify :: "(string \<times> string) list \<Rightarrow> string" where
  "demo_stringify kvs =
     ''{'' @ js_join '','' (map (\<lambda>(k, v). Some (quoted k @ '':'' @ quoted v)) kvs) @ ''}''"

definition demo_collab ::
  "(string \<times> string) list chat_response
     \<Rightarrow> (nat \<times> string list, (string \<times> string) list, unit) collab" where
  "demo_collab first =
     \<lparr>ollama_chat = (\<lambda>(n, ls) req.
        (Inr (if req_tools req = None
              then \<lparr>message_content =
                      (if even (length (req_messages req)) then Some ''three'' else None),
                    message_tool_calls = None\<rparr>
              else first), (Suc n, ls))),
      mcp_connect = (\<lambda>w t. w),
      mcp_listTools = (\<lambda>w. (Inr demo_tools, w)),
      mcp_callTool = (\<lambda>(n, ls) nm a.
        (Inr [\<lparr>item_type = ''text'', item_text = Some nm, resource_data = None\<rparr>],
         (Suc n, ls))),
      mcp_close = (\<lambda>w. (Inr (), w)),
      rl_question = (\<lambda>(n, ls) prompt.
        case ls of
          [] \<Rightarrow> (Inl (Error ''closed''), (n, ls))
        | l # ls' \<Rightarrow> (Inr l, (n, ls'))),
      JSON_stringify = demo_stringify\<rparr>"

text \<open>The same collaborators, but with a chat service that rejects every follow-up
  request.\<close>

definition rejecting_collab ::
  "(string \<times> string) list chat_response
     \<Rightarrow> (nat \<times> string list, (string \<times> string) list, unit) collab" where
  "rejecting_collab first =
     (demo_collab first)
       \<lparr>ollama_chat := (\<lambda>(n, ls) req.
          (if req_tools req = None then Inl (Error ''model unavailable'') else Inr first,
           (Suc n, ls)))\<rparr>"

definition demo_client :: "unit client" where
  "demo_client = \<lparr>client_transport = None, tools = map to_tool demo_tools\<rparr>"

definition two_calls :: "(string \<times> string) list chat_response" where
  "two_calls =
     \<lparr>message_content = Some '''',
      message_tool_calls =
        Some [\<lparr>call_name = ''add'', call_arguments = Some [(''a'', ''1''), (''b'', ''2'')]\<rparr>,
              \<lparr>call_name = ''echo'', call_arguments = Some []\<rparr>]\<rparr>"

definition empty_calls :: "string \<Rightarrow> (string \<times> string) list chat_response" where
  "empty_calls text = \<lparr>message_content = Some text, message_tool_calls = Some []\<rparr>"

definition plain_answer :: "string \<Rightarrow> (string \<times> string) list chat_response" where
  "plain_answer text = \<lparr>message_content = Some text, message_tool_calls = None\<rparr>"

section \<open>Properties of the builtins\<close>

lemma join_from_Suc:
  "join_from sep (Suc k) xs R =
     R @ concat (map (\<lambda>x. sep @ (case x of None \<Rightarrow> '''' | Some s \<Rightarrow> s)) xs)"
  by (induction xs arbitrary: k R) simp_all

lemma js_join_Nil: "js_join sep [] = ''''"
  by (simp add: js_join_def)

lemma js_join_Cons:
  "js_join sep (x # xs) =
     (case x of None \<Rightarrow> '''' | Some s \<Rightarrow> s)
       @ concat (map (\<lambda>x. sep @ (case x of None \<Rightarrow> '''' | Some s \<Rightarrow> s)) xs)"
  by (simp add: js_join_def join_from_Suc)

lemma js_join_Cons_Cons:
  "js_join sep (x # y # ys) =
     (case x of None \<Rightarrow> '''' | Some s \<Rightarrow> s) @ sep @ js_join sep (y # ys)"
  by (simp add: js_join_Cons)

lemma textual_representation_flatten_item:
  "textual_representation item = (case flatten_item item of None \<Rightarrow> '''' | Some s \<Rightarrow> s)"
  by (simp add: textual_representation_def flatten_item_def)

lemma flatten_blank_line_joined:
  "flatten items = blank_line_joined (map textual_representation items)"
proof (induction "map textual_representation items" arbitrary: items
    rule: blank_line_joined.induct)
  case 1
  then show ?case by (simp add: flatten_def js_join_Nil)
next
  case (2 x)
  then obtain i where "items = [i]" "x = textual_representation i" by auto
  then show ?case
    by (simp add: flatten_def js_join_Cons textual_representation_flatten_item)
next
  case (3 x y ys)
  then obtain i j js where items: "items = i # j # js"
    and x: "x = textual_representation i"
    and rest: "y # ys = map textual_representation (j # js)"
    by (cases items; cases "tl items") auto
  from "3.hyps"(1) [OF rest] have "flatten (j # js) = blank_line_joined (y # ys)"
    using rest by simp
  then show ?case
    using items x rest
    by (simp add: flatten_def js_join_Cons_Cons textual_representation_flatten_item
        del: blank_line_joined.simps(3))
      (simp add: rest [symmetric])
qed

section \<open>Properties of the tool-call loop\<close>


lemma followups_length: "length (followups H base rs) = length rs"
  by (induction rs arbitrary: base) simp_all

lemma followups_nth:
  "k < length rs \<Longrightarrow>
     followups H base rs ! k = followup_request H (base @ map tool_message (take (Suc k) rs))"
proof (induction rs arbitrary: base k)
  case Nil
  then show ?case by simp
next
  case (Cons r rs)
  then show ?case by (cases k) simp_all
qed

lemma followups_tools: "map req_tools (followups H base rs) = replicate (length rs) None"
  by (induction rs arbitrary: base) (simp_all add: followup_request_def)

text \<open>Whatever the outcome of the loop, its chat requests are the follow-ups on the
  results of the tool calls that succeeded.\<close>

lemma for_tool_calls_requests:
  "for_tool_calls E H calls w L = (r, w', evs) \<Longrightarrow>
     chat_requests evs = followups H (messages L) (tool_outputs evs)"
  by (induction calls arbitrary: w L r w' evs)
     (auto simp: Let_def tool_message_def split: prod.splits sum.splits)

text \<open>A loop that runs to its end has processed every directive.\<close>

lemma for_tool_calls_Inr:
  "for_tool_calls E H calls w L = (Inr L', w', evs) \<Longrightarrow>
     tool_invocations evs = map (\<lambda>c. (call_name c, call_arguments c)) calls \<and>
     length (tool_outputs evs) = length calls \<and>
     length (chat_responses evs) = length calls \<and>
     messages L' = messages L @ map tool_message (tool_outputs evs) \<and>
     toolResults L' = toolResults L @ tool_outputs evs \<and>
     finalText L' = finalText L @ concat (map2 (\<lambda>c r.
        [Some (trace_line E (call_name c) (call_arguments c)), Some (content_or_empty r)])
          calls (chat_responses evs))"
  by (induction calls arbitrary: w L L' w' evs)
     (auto simp: Let_def tool_message_def split: prod.splits sum.splits)

lemma processQuery_locals_requests:
  "processQuery_locals E H this w query = (r, w', evs) \<Longrightarrow>
     chat_requests evs =
       first_request H this query
         # followups H [\<lparr>role = ''user'', content = query\<rparr>] (tool_outputs evs)"
  by (auto simp: processQuery_locals_def Let_def dest: for_tool_calls_requests
      split: prod.splits sum.splits option.splits)

lemma processQuery_locals_Inr:
  "processQuery_locals E H this w query = (Inr L, w', evs) \<Longrightarrow>
     messages L = \<lparr>role = ''user'', content = query\<rparr> # map tool_message (tool_outputs evs) \<and>
     length (tool_outputs evs) = length (tool_invocations evs)"
  by (auto simp: processQuery_locals_def Let_def dest!: for_tool_calls_Inr
      split: prod.splits sum.splits option.splits)



lemma processQuery_any:
  "processQuery E H this w query = (r, this', w', evs) \<Longrightarrow>
     this' = this \<and> (\<exists>r'. processQuery_locals E H this w query = (r', w', evs))"
  by (auto simp: processQuery_def split: prod.splits sum.splits)

lemma processQuery_first_event:
  "\<exists>r w' out evs'.
     processQuery E H this w query
       = (r, this, w', ChatEv (first_request H this query) out # evs')"
  by (auto simp: processQuery_def processQuery_locals_def Let_def
      split: prod.splits sum.splits option.splits)



text \<open>A run none of whose calls was rejected reaches its \<open>return\<close>.\<close>

lemma for_tool_calls_not_rejected:
  "for_tool_calls E H calls w L = (r, w', evs) \<Longrightarrow> \<forall>ev \<in> set evs. \<not> rejected ev \<Longrightarrow>
     \<exists>L'. r = Inr L'"
  by (induction calls arbitrary: w L r w' evs)
     (auto simp: Let_def split: prod.splits sum.splits)

lemma processQuery_not_rejected:
  "processQuery E H this w query = (r, this', w', evs) \<Longrightarrow>
     \<forall>ev \<in> set evs. \<not> rejected ev \<Longrightarrow> \<exists>answer. r = Inr answer"
  by (auto simp: processQuery_def processQuery_locals_def Let_def
      dest: for_tool_calls_not_rejected split: prod.splits sum.splits option.splits)

text \<open>The loop of \<open>chatLoop\<close> hands on the client it was given.\<close>

lemma chatLoop_while_this:
  assumes run: "chatLoop_while E H this w evs = Some res"
  shows "fst (snd res) = this"
proof (rule chatLoop_while.raw_induct
    [where P = "\<lambda>E H this w evs res. fst (snd res) = this", OF _ run], goal_cases)
  case (1 loop E H this w evs res)
  from "1"(2) show ?case
    by (auto simp: processQuery_def dest: "1"(1)
        split: prod.splits sum.splits if_splits)
qed



lemmas demo_defs =
  demo_host_def demo_tools_def demo_collab_def rejecting_collab_def demo_stringify_def quoted_def demo_client_def two_calls_def
  empty_calls_def plain_answer_def to_tool_def first_request_def followup_request_def
  processQuery_def processQuery_locals_def flatten_def flatten_item_def js_join_def
  trace_line_def content_or_empty_def tool_message_def Let_def

section \<open>The claims\<close>

text \<open>
  Claim C3. The flattened blob of a tool result is the blank-line join of the textual
  representations of its items: the text of a text item, the embedded data of a resource
  item, the empty string for any other kind. For a text item \<open>a\<close>, a resource item with
  data \<open>b\<close> and an item of unknown kind, the blob is \<open>a\<close>, a blank line, \<open>b\<close>, a blank
  line, and nothing after it.
\<close>

theorem flatten_rule:
  "flatten items = blank_line_joined (map textual_representation items) \<and>
   flatten [\<lparr>item_type = ''text'', item_text = Some ''a'', resource_data = None\<rparr>,
            \<lparr>item_type = ''resource'', item_text = None, resource_data = Some ''b''\<rparr>,
            \<lparr>item_type = ''unknown'', item_text = None, resource_data = None\<rparr>]
     = ''a'' @ [CHR 0x0A, CHR 0x0A] @ ''b'' @ [CHR 0x0A, CHR 0x0A]"
proof
  show "flatten items = blank_line_joined (map textual_representation items)"
    by (rule flatten_blank_line_joined)
next
  show "flatten [\<lparr>item_type = ''text'', item_text = Some ''a'', resource_data = None\<rparr>,
            \<lparr>item_type = ''resource'', item_text = None, resource_data = Some ''b''\<rparr>,
            \<lparr>item_type = ''unknown'', item_text = None, resource_data = None\<rparr>]
     = ''a'' @ [CHR 0x0A, CHR 0x0A] @ ''b'' @ [CHR 0x0A, CHR 0x0A]"
    by (simp add: flatten_def flatten_item_def js_join_def)
qed

text \<open>
  Claim C4. When the server script path ends neither in \<open>.js\<close> nor in \<open>.py\<close>,
  \<open>connectToServer\<close> fails with the error the specification calls
  \<open>UnsupportedScriptType\<close>; the client keeps the transport field it had, the outside
  world is as it was, and the only call made is the \<open>console.log\<close> of the \<open>catch\<close>
  block: no transport is created and none is connected.
\<close>

theorem connectToServer_unsupported:
  assumes "\<not> endsWith serverScriptPath ''.js''"
    and "\<not> endsWith serverScriptPath ''.py''"
  shows "connectToServer E H this w serverScriptPath =
           (Inl UnsupportedScriptType, this, w,
            [ConsoleLog [LStr ''Failed to connect to MCP server: '',
                         LErr UnsupportedScriptType]])"
  using assms by (simp add: connectToServer_def)

theorem connectToServer_unsupported_witness:
  "\<not> endsWith ''server.rb'' ''.js'' \<and> \<not> endsWith ''server.rb'' ''.py'' \<and>
   connectToServer (demo_collab two_calls) demo_host
       \<lparr>client_transport = None, tools = []\<rparr> (0, []) ''server.rb'' =
     (Inl (Error ''Server script must be a .js or .py file''),
      \<lparr>client_transport = None, tools = []\<rparr>, (0, []),
      [ConsoleLog [LStr ''Failed to connect to MCP server: '',
                   LErr (Error ''Server script must be a .js or .py file'')]])"
proof -
  have js: "\<not> endsWith ''server.rb'' ''.js''" by (simp add: endsWith_def)
  have py: "\<not> endsWith ''server.rb'' ''.py''" by (simp add: endsWith_def)
  from connectToServer_unsupported [OF js py, of "demo_collab two_calls" demo_host
      "\<lparr>client_transport = None, tools = []\<rparr>" "(0, [])"] js py
  show ?thesis by (simp add: UnsupportedScriptType_def)
qed



text \<open>
  The branch without tool calls. Whenever the chat response has no \<open>tool_calls\<close> field,
  \<open>processQuery\<close> returns the text content of the response, the empty string when the
  response has no content, after that one chat call and no other.
\<close>

lemma processQuery_no_tool_calls:
  assumes "ollama_chat E w (first_request H this query) = (Inr response, w1)"
    and "message_tool_calls response = None"
  shows "processQuery E H this w query =
           (Inr (case message_content response of None \<Rightarrow> '''' | Some s \<Rightarrow> s), this, w1,
            [ChatEv (first_request H this query) (Inr response)])"
  using assms
  by (simp add: processQuery_def processQuery_locals_def js_join_def split: option.splits)

text \<open>
  Claim C2. Whenever the chat response holds no tool-call directive, \<open>processQuery\<close>
  is to return the text content of the response. The branch of line 122 does so when the
  \<open>tool_calls\<close> field is absent. The code misses the response whose \<open>tool_calls\<close> field
  is present and empty: an empty array passes the test of line 78, the loop body never
  runs and the \<open>else\<close> branch is skipped. With the content \<open>hello\<close> and no directive, the
  response without the field gives \<open>hello\<close> and the response with the empty array gives
  the empty string.
\<close>

theorem processQuery_empty_array_drops_content:
  "ollama_chat (demo_collab (empty_calls ''hello'')) (0, [])
       (first_request demo_host demo_client ''hi'')
     = (Inr \<lparr>message_content = Some ''hello'', message_tool_calls = Some []\<rparr>, (1, [])) \<and>
   processQuery (demo_collab (empty_calls ''hello'')) demo_host demo_client (0, []) ''hi''
     = (Inr '''', demo_client, (1, []),
        [ChatEv (first_request demo_host demo_client ''hi'')
           (Inr \<lparr>message_content = Some ''hello'', message_tool_calls = Some []\<rparr>)]) \<and>
   fst (processQuery (demo_collab (empty_calls ''hello'')) demo_host demo_client (0, []) ''hi'')
     \<noteq> Inr ''hello'' \<and>
   fst (processQuery (demo_collab (plain_answer ''hello'')) demo_host demo_client (0, []) ''hi'')
     = Inr ''hello''"
  by (simp add: demo_defs)

text \<open>
  Claim C8. When the \<open>tool_calls\<close> field of the chat response is present and empty,
  \<open>processQuery\<close> returns the empty string, whatever the text content of the response
  is, after that one chat call and no other.
\<close>

theorem processQuery_empty_tool_calls:
  assumes "ollama_chat E w (first_request H this query) = (Inr response, w1)"
    and "message_tool_calls response = Some []"
  shows "processQuery E H this w query =
           (Inr '''', this, w1, [ChatEv (first_request H this query) (Inr response)])"
  using assms
  by (simp add: processQuery_def processQuery_locals_def js_join_def)

theorem processQuery_empty_tool_calls_witness:
  "ollama_chat (demo_collab (empty_calls ''The answer is 4'')) (0, [])
       (first_request demo_host demo_client ''two plus two'')
     = (Inr (empty_calls ''The answer is 4''), (1, [])) \<and>
   message_tool_calls (empty_calls ''The answer is 4'') = Some [] \<and>
   message_content (empty_calls ''The answer is 4'') = Some ''The answer is 4'' \<and>
   processQuery (demo_collab (empty_calls ''The answer is 4'')) demo_host demo_client (0, [])
       ''two plus two''
     = (Inr '''', demo_client, (1, []),
        [ChatEv (first_request demo_host demo_client ''two plus two'')
           (Inr (empty_calls ''The answer is 4''))])"
proof -
  have first: "ollama_chat (demo_collab (empty_calls ''The answer is 4'')) (0, [])
       (first_request demo_host demo_client ''two plus two'')
     = (Inr (empty_calls ''The answer is 4''), (1, []))"
    by (simp add: demo_collab_def first_request_def)
  have empty: "message_tool_calls (empty_calls ''The answer is 4'') = Some []"
    by (simp add: empty_calls_def)
  from processQuery_empty_tool_calls [OF first empty] first empty show ?thesis
    by (simp add: empty_calls_def)
qed






text \<open>
  Claim C9. In every invocation of \<open>processQuery\<close>, whatever its outcome, the history
  passed to the \<open>k\<close>-th chat call (counting the first call as number 0) is the user
  message with the query followed by the tool messages of the first \<open>k\<close> results: it has
  \<open>1 + k\<close> messages, and every message after the first has the role \<open>tool\<close>, so none
  has the role \<open>assistant\<close>. When the method reaches its \<open>return\<close>, the history is the
  user message followed by one tool message per directive processed.
\<close>

theorem processQuery_history:
  assumes "processQuery_locals E H this w query = (r, w', evs)"
  shows "(\<forall>k < length (chat_requests evs).
            req_messages (chat_requests evs ! k)
              = \<lparr>role = ''user'', content = query\<rparr>
                  # map tool_message (take k (tool_outputs evs)) \<and>
            length (req_messages (chat_requests evs ! k)) = 1 + k \<and>
            (\<forall>m \<in> set (tl (req_messages (chat_requests evs ! k))). role m = ''tool'') \<and>
            (\<forall>m \<in> set (req_messages (chat_requests evs ! k)). role m \<noteq> ''assistant'')) \<and>
         (\<forall>L. r = Inr L \<longrightarrow>
            messages L = \<lparr>role = ''user'', content = query\<rparr>
                           # map tool_message (tool_outputs evs) \<and>
            length (messages L) = 1 + length (tool_invocations evs) \<and>
            (\<forall>m \<in> set (tl (messages L)). role m = ''tool''))"
proof (intro conjI allI impI)
  note reqs = processQuery_locals_requests [OF assms]
  fix k assume k: "k < length (chat_requests evs)"
  then have kle: "k \<le> length (tool_outputs evs)"
    using reqs by (simp add: followups_length)
  show hist: "req_messages (chat_requests evs ! k)
      = \<lparr>role = ''user'', content = query\<rparr> # map tool_message (take k (tool_outputs evs))"
  proof (cases k)
    case 0
    then show ?thesis using reqs by (simp add: first_request_def)
  next
    case (Suc j)
    with kle have j: "j < length (tool_outputs evs)" by simp
    show ?thesis
      using reqs by (simp add: Suc followups_nth [OF j] followup_request_def)
  qed
  show "length (req_messages (chat_requests evs ! k)) = 1 + k"
    using hist kle by simp
  show "\<forall>m \<in> set (tl (req_messages (chat_requests evs ! k))). role m = ''tool''"
    using hist by (auto simp: tool_message_def)
  show "\<forall>m \<in> set (req_messages (chat_requests evs ! k)). role m \<noteq> ''assistant''"
    using hist by (auto simp: tool_message_def)
next
  fix L assume r: "r = Inr L"
  note fin = processQuery_locals_Inr [OF assms [unfolded r]]
  show "messages L = \<lparr>role = ''user'', content = query\<rparr> # map tool_message (tool_outputs evs)"
    using fin by simp
  show "length (messages L) = 1 + length (tool_invocations evs)"
    using fin by simp
  show "\<forall>m \<in> set (tl (messages L)). role m = ''tool''"
    using fin by (auto simp: tool_message_def)
qed

theorem processQuery_history_witness:
  "\<exists>L evs.
     processQuery_locals (demo_collab two_calls) demo_host demo_client (0, []) ''hi''
       = (Inr L, (5, []), evs) \<and>
     length (chat_requests evs) = 3 \<and>
     (\<forall>k < 3. length (req_messages (chat_requests evs ! k)) = 1 + k \<and>
               (\<forall>m \<in> set (req_messages (chat_requests evs ! k)). role m \<noteq> ''assistant'')) \<and>
     messages L = [\<lparr>role = ''user'', content = ''hi''\<rparr>, \<lparr>role = ''tool'', content = ''add''\<rparr>,
                   \<lparr>role = ''tool'', content = ''echo''\<rparr>]"
proof -
  have "\<exists>L evs. processQuery_locals (demo_collab two_calls) demo_host demo_client (0, []) ''hi''
       = (Inr L, (5, []), evs)"
    by (simp add: demo_defs)
  then obtain L evs where
    run: "processQuery_locals (demo_collab two_calls) demo_host demo_client (0, []) ''hi''
       = (Inr L, (5, []), evs)"
    by blast
  have "evs = snd (snd (processQuery_locals (demo_collab two_calls) demo_host demo_client
      (0, []) ''hi''))"
    using run by simp
  then have len: "length (chat_requests evs) = 3"
    and outs: "tool_outputs evs =
      [[\<lparr>item_type = ''text'', item_text = Some ''add'', resource_data = None\<rparr>],
       [\<lparr>item_type = ''text'', item_text = Some ''echo'', resource_data = None\<rparr>]]"
    by (simp_all add: demo_defs)
  note inst = processQuery_history [OF run]
  have each: "\<forall>k < 3. length (req_messages (chat_requests evs ! k)) = 1 + k \<and>
      (\<forall>m \<in> set (req_messages (chat_requests evs ! k)). role m \<noteq> ''assistant'')"
  proof (intro allI impI)
    fix k :: nat assume "k < 3"
    then have "k < length (chat_requests evs)" using len by simp
    with inst show "length (req_messages (chat_requests evs ! k)) = 1 + k \<and>
      (\<forall>m \<in> set (req_messages (chat_requests evs ! k)). role m \<noteq> ''assistant'')"
      by blast
  qed
  have final: "messages L = [\<lparr>role = ''user'', content = ''hi''\<rparr>,
      \<lparr>role = ''tool'', content = ''add''\<rparr>, \<lparr>role = ''tool'', content = ''echo''\<rparr>]"
  proof -
    from inst have "messages L = \<lparr>role = ''user'', content = ''hi''\<rparr>
        # map tool_message (tool_outputs evs)"
      by blast
    then show ?thesis
      by (simp add: outs tool_message_def flatten_def flatten_item_def js_join_def)
  qed
  show ?thesis
    by (rule exI [of _ L], rule exI [of _ evs]) (use run len each final in blast)
qed

text \<open>
  Claim C10. An invocation of \<open>processQuery\<close> hands back the client it was given, so the
  \<open>tools\<close> field is as it was; its first chat request carries exactly that tool list and
  every later chat request of the invocation carries none. The loop of \<open>chatLoop\<close> and
  \<open>cleanup\<close> leave the field alone as well: of the methods of the client only
  \<open>connectToServer\<close> assigns it.
\<close>

theorem processQuery_tools_unchanged:
  assumes "processQuery E H this w query = (r, this', w', evs)"
  shows "this' = this \<and> tools this' = tools this \<and>
         map req_tools (chat_requests evs)
           = Some (tools this) # replicate (length (chat_requests evs) - 1) None \<and>
         (\<forall>res. chatLoop E H this w0 = Some res \<longrightarrow> tools (fst (snd res)) = tools this) \<and>
         tools (fst (snd (cleanup E this w0))) = tools this"
proof -
  from processQuery_any [OF assms] obtain r'
    where same: "this' = this"
      and loc: "processQuery_locals E H this w query = (r', w', evs)"
    by blast
  note reqs = processQuery_locals_requests [OF loc]
  have attach: "map req_tools (chat_requests evs)
      = Some (tools this) # replicate (length (chat_requests evs) - 1) None"
    using reqs by (simp add: followups_tools followups_length first_request_def)
  have loop: "tools (fst (snd res)) = tools this" if "chatLoop E H this w0 = Some res" for res
  proof -
    from that obtain res0 where
      inner: "chatLoop_while E H this w0
         [CreateInterface,
          ConsoleLog [LStr (CHR 0x0A # ''MCP Client Started!'')],
          ConsoleLog [LStr (''Type your queries or '' @ [CHR 0x27] @ ''quit''
                              @ [CHR 0x27] @ '' to exit.'')]] = Some res0"
      and same_client: "fst (snd res) = fst (snd res0)"
      by (auto simp: chatLoop_def split: option.splits prod.splits)
    from chatLoop_while_this [OF inner] same_client show ?thesis
      by simp
  qed
  have clean: "tools (fst (snd (cleanup E this w0))) = tools this"
    by (simp add: cleanup_def split: prod.splits)
  from same attach loop clean show ?thesis by simp
qed

theorem processQuery_tools_unchanged_witness:
  "\<exists>r evs.
     processQuery (demo_collab two_calls) demo_host demo_client (0, []) ''hi''
       = (r, demo_client, (5, []), evs) \<and>
     map req_tools (chat_requests evs) = [Some (tools demo_client), None, None] \<and>
     chatLoop (demo_collab two_calls) demo_host demo_client (0, [''quit''])
       = Some (Inr (), demo_client, (0, []),
           [CreateInterface,
            ConsoleLog [LStr (CHR 0x0A # ''MCP Client Started!'')],
            ConsoleLog [LStr (''Type your queries or '' @ [CHR 0x27] @ ''quit''
                                @ [CHR 0x27] @ '' to exit.'')],
            Question query_prompt (Inr ''quit''),
            RlClose]) \<and>
     tools (fst (snd (the (chatLoop (demo_collab two_calls) demo_host demo_client
                             (0, [''quit''])))))
       = tools demo_client"
proof -
  have "\<exists>r evs. processQuery (demo_collab two_calls) demo_host demo_client (0, []) ''hi''
       = (r, demo_client, (5, []), evs)"
    by (simp add: demo_defs)
  then obtain r evs where
    run: "processQuery (demo_collab two_calls) demo_host demo_client (0, []) ''hi''
       = (r, demo_client, (5, []), evs)"
    by blast
  have "evs = snd (snd (snd (processQuery (demo_collab two_calls) demo_host demo_client
      (0, []) ''hi'')))"
    using run by simp
  then have len: "length (chat_requests evs) = 3"
    by (simp add: demo_defs)
  have loop: "chatLoop (demo_collab two_calls) demo_host demo_client (0, [''quit''])
       = Some (Inr (), demo_client, (0, []),
           [CreateInterface,
            ConsoleLog [LStr (CHR 0x0A # ''MCP Client Started!'')],
            ConsoleLog [LStr (''Type your queries or '' @ [CHR 0x27] @ ''quit''
                                @ [CHR 0x27] @ '' to exit.'')],
            Question query_prompt (Inr ''quit''),
            RlClose])"
    unfolding chatLoop_def
    by (subst chatLoop_while.simps)
       (simp add: demo_collab_def toLowerCase_def lower_char_def)
  note inst = processQuery_tools_unchanged [OF run, of "(0, [''quit''])"]
  have attach:
    "map req_tools (chat_requests evs) = [Some (tools demo_client), None, None]"
    using inst [THEN conjunct2, THEN conjunct2, THEN conjunct1]
    by (simp add: len numeral_2_eq_2)
  have kept: "tools (fst (snd (the (chatLoop (demo_collab two_calls) demo_host demo_client
                             (0, [''quit''])))))
       = tools demo_client"
    by (simp add: loop)
  show ?thesis
    by (intro exI [of _ r] exI [of _ evs] conjI) (rule run attach loop kept)+
qed

text \<open>
  Claim C6. Let the line read at the prompt be \<open>line\<close>. If its lowercase form is
  \<open>quit\<close>, the loop ends there, and all it adds to the trace is the question: no chat
  call and no tool call, so \<open>processQuery\<close> was not invoked. If its lowercase form is
  anything else, \<open>processQuery\<close> is invoked on the line as it was typed: its first chat
  request, whose history is the user message holding that line, enters the trace, its
  answer or its error is printed, and the loop goes on from the world it left. \<open>QUIT\<close>
  is of the first kind; \<open>quit\<close> after a blank is of the second.
\<close>

theorem chatLoop_quit:
  assumes "rl_question E w query_prompt = (Inr line, w1)"
  shows "(toLowerCase line = ''quit'' \<longrightarrow>
            chatLoop_while E H this w evs
              = Some (Inr (), this, w1, evs @ [Question query_prompt (Inr line)])) \<and>
         (toLowerCase line \<noteq> ''quit'' \<longrightarrow>
            (\<exists>r w2 out evs2.
               processQuery E H this w1 line
                 = (r, this, w2, ChatEv (first_request H this line) out # evs2) \<and>
               req_messages (first_request H this line) = [\<lparr>role = ''user'', content = line\<rparr>] \<and>
               chatLoop_while E H this w evs
                 = chatLoop_while E H this w2
                     (evs @ Question query_prompt (Inr line)
                        # ChatEv (first_request H this line) out # evs2
                        @ [ConsoleLog
                             (case r of
                                Inr response \<Rightarrow> [LStr (CHR 0x0A # '' Response :'' @ response)]
                              | Inl err \<Rightarrow> [LStr ''Error occured : '', LErr err])]))) \<and>
         toLowerCase ''QUIT'' = ''quit'' \<and> toLowerCase '' quit'' \<noteq> ''quit''"
proof (intro conjI impI)
  assume "toLowerCase line = ''quit''"
  then show "chatLoop_while E H this w evs
      = Some (Inr (), this, w1, evs @ [Question query_prompt (Inr line)])"
    using assms by (subst chatLoop_while.simps) simp
next
  assume other: "toLowerCase line \<noteq> ''quit''"
  from processQuery_first_event [of E H this w1 line] obtain r w2 out evs2
    where run: "processQuery E H this w1 line
                 = (r, this, w2, ChatEv (first_request H this line) out # evs2)"
    by blast
  have "chatLoop_while E H this w evs
                 = chatLoop_while E H this w2
                     (evs @ Question query_prompt (Inr line)
                        # ChatEv (first_request H this line) out # evs2
                        @ [ConsoleLog
                             (case r of
                                Inr response \<Rightarrow> [LStr (CHR 0x0A # '' Response :'' @ response)]
                              | Inl err \<Rightarrow> [LStr ''Error occured : '', LErr err])])"
    using assms other run
    by (subst chatLoop_while.simps) (simp split: sum.splits)
  with run show "\<exists>r w2 out evs2.
               processQuery E H this w1 line
                 = (r, this, w2, ChatEv (first_request H this line) out # evs2) \<and>
               req_messages (first_request H this line) = [\<lparr>role = ''user'', content = line\<rparr>] \<and>
               chatLoop_while E H this w evs
                 = chatLoop_while E H this w2
                     (evs @ Question query_prompt (Inr line)
                        # ChatEv (first_request H this line) out # evs2
                        @ [ConsoleLog
                             (case r of
                                Inr response \<Rightarrow> [LStr (CHR 0x0A # '' Response :'' @ response)]
                              | Inl err \<Rightarrow> [LStr ''Error occured : '', LErr err])])"
    by (auto simp: first_request_def)
next
  show "toLowerCase ''QUIT'' = ''quit''"
    by (simp add: toLowerCase_def lower_char_def)
  show "toLowerCase '' quit'' \<noteq> ''quit''"
    by (simp add: toLowerCase_def lower_char_def)
qed

theorem chatLoop_quit_witness:
  "rl_question (demo_collab (plain_answer ''hello'')) (0, [''QUIT'']) query_prompt
     = (Inr ''QUIT'', (0, [])) \<and>
   toLowerCase ''QUIT'' = ''quit'' \<and>
   chatLoop_while (demo_collab (plain_answer ''hello'')) demo_host demo_client
       (0, [''QUIT'']) []
     = Some (Inr (), demo_client, (0, []), [] @ [Question query_prompt (Inr ''QUIT'')]) \<and>
   rl_question (demo_collab (plain_answer ''hello'')) (0, ['' quit'', ''QUIT'']) query_prompt
     = (Inr '' quit'', (0, [''QUIT''])) \<and>
   toLowerCase '' quit'' \<noteq> ''quit'' \<and>
   (\<exists>r w2 out evs2.
      processQuery (demo_collab (plain_answer ''hello'')) demo_host demo_client
          (0, [''QUIT'']) '' quit''
        = (r, demo_client, w2,
           ChatEv (first_request demo_host demo_client '' quit'') out # evs2) \<and>
      req_messages (first_request demo_host demo_client '' quit'')
        = [\<lparr>role = ''user'', content = '' quit''\<rparr>] \<and>
      chatLoop_while (demo_collab (plain_answer ''hello'')) demo_host demo_client
          (0, ['' quit'', ''QUIT'']) []
        = chatLoop_while (demo_collab (plain_answer ''hello'')) demo_host demo_client w2
            ([] @ Question query_prompt (Inr '' quit'')
               # ChatEv (first_request demo_host demo_client '' quit'') out # evs2
               @ [ConsoleLog
                    (case r of
                       Inr response \<Rightarrow> [LStr (CHR 0x0A # '' Response :'' @ response)]
                     | Inl err \<Rightarrow> [LStr ''Error occured : '', LErr err])]))"
proof -
  have q1: "rl_question (demo_collab (plain_answer ''hello'')) (0, [''QUIT'']) query_prompt
     = (Inr ''QUIT'', (0, []))"
    by (simp add: demo_collab_def)
  have q2: "rl_question (demo_collab (plain_answer ''hello'')) (0, ['' quit'', ''QUIT''])
      query_prompt = (Inr '' quit'', (0, [''QUIT'']))"
    by (simp add: demo_collab_def)
  have low1: "toLowerCase ''QUIT'' = ''quit''"
    by (simp add: toLowerCase_def lower_char_def)
  have low2: "toLowerCase '' quit'' \<noteq> ''quit''"
    by (simp add: toLowerCase_def lower_char_def)
  note stop = chatLoop_quit [OF q1, of demo_host demo_client "[]",
      THEN conjunct1, rule_format, OF low1]
  note go_on = chatLoop_quit [OF q2, of demo_host demo_client "[]",
      THEN conjunct2, THEN conjunct1, rule_format, OF low2]
  show ?thesis
    by (intro conjI) (rule q1 low1 stop q2 low2 go_on)+
qed

end
